theory Spec2Isabelle
  imports Main
begin

section \<open>JavaScript values\<close>

text \<open>
  A field typed \<open>T | null | undefined\<close> in \<^verbatim>\<open>src/index.ts\<close> is a \<open>T nullable\<close>.
  A field typed \<open>T | undefined\<close> (declared \<^verbatim>\<open>name?: T\<close>) is a \<open>T option\<close>, with
  \<open>None\<close> for \<^verbatim>\<open>undefined\<close>. Numbers are integers: times are milliseconds since
  the epoch and \<^verbatim>\<open>expires_in\<close> is a count of seconds.
\<close>

datatype 'a nullable = Undefined | Null | Defined 'a

text \<open>Truthiness (\<^verbatim>\<open>if (x)\<close>, \<^verbatim>\<open>!x\<close>, \<^verbatim>\<open>x && y\<close>, \<^verbatim>\<open>x || y\<close>): the empty string and the
  number 0 are falsy, as are \<^verbatim>\<open>null\<close> and \<^verbatim>\<open>undefined\<close>.\<close>

fun truthy_str :: "string nullable \<Rightarrow> bool" where
  "truthy_str (Defined s) = (s \<noteq> [])"
| "truthy_str Null = False"
| "truthy_str Undefined = False"

fun truthy_num :: "int nullable \<Rightarrow> bool" where
  "truthy_num (Defined n) = (n \<noteq> 0)"
| "truthy_num Null = False"
| "truthy_num Undefined = False"

fun truthy :: "string option \<Rightarrow> bool" where
  "truthy (Some s) = (s \<noteq> [])"
| "truthy None = False"

text \<open>\<^verbatim>\<open>a || b\<close> on optional strings.\<close>

definition js_or :: "string option \<Rightarrow> string option \<Rightarrow> string option" where
  "js_or a b = (if truthy a then a else b)"

text \<open>\<^verbatim>\<open>x === null || x === undefined\<close>.\<close>

fun nullish :: "'a nullable \<Rightarrow> bool" where
  "nullish (Defined x) = False"
| "nullish Null = True"
| "nullish Undefined = True"

text \<open>The string a template literal or \<^verbatim>\<open>+\<close> reads from a value known to be a string.\<close>

fun str_of :: "string nullable \<Rightarrow> string" where
  "str_of (Defined s) = s"
| "str_of Null = ''null''"
| "str_of Undefined = ''undefined''"

fun opt_str :: "string option \<Rightarrow> string" where
  "opt_str (Some s) = s"
| "opt_str None = ''undefined''"

datatype jsval = JUndefined | JNull | JNum int | JStr string | JBool bool

fun jsval_of :: "string option \<Rightarrow> jsval" where
  "jsval_of (Some s) = JStr s"
| "jsval_of None = JUndefined"

type_synonym claims = "string \<rightharpoonup> jsval"

section \<open>Data model\<close>

definition GOOGLE_TOKEN_URL :: string where
  "GOOGLE_TOKEN_URL = ''https://www.googleapis.com/oauth2/v4/token''"

definition GOOGLE_REVOKE_TOKEN_URL :: string where
  "GOOGLE_REVOKE_TOKEN_URL = ''https://accounts.google.com/o/oauth2/revoke?token=''"

record Credentials =
  privateKey :: string
  clientEmail :: "string option"

record TokenData =
  refresh_token :: "string nullable"
  expires_in :: "int nullable"
  access_token :: "string nullable"
  token_type :: "string nullable"
  id_token :: "string nullable"

datatype scope_option = ScopeString string | ScopeArray "string list"

record TokenOptions =
  opt_keyFile :: "string option"
  opt_key :: "string option"
  opt_email :: "string option"
  opt_iss :: "string option"
  opt_sub :: "string option"
  opt_scope :: "scope_option option"
  opt_additionalClaims :: "claims option"

text \<open>The body of an error response, the response, and the rejection of an axios call.
  \<open>response = None\<close> is a transport error with no response; \<open>data = None\<close> is a
  response whose body is falsy.\<close>

record error_body =
  error :: "string option"
  error_description :: "string option"

record http_response =
  status :: nat
  data :: "error_body option"

record axios_error =
  message :: string
  response :: "http_response option"

datatype js_error =
    Error string
  | ErrorWithCode string string
  | Rejected axios_error
  | Thrown string

text \<open>\<open>Rejected e\<close> is the rejection \<open>e\<close> of an axios promise, passed on as it is;
  \<open>Thrown\<close> is an error of a collaborator (\<^verbatim>\<open>readFile\<close>, \<^verbatim>\<open>JSON.parse\<close>,
  \<^verbatim>\<open>getPem\<close>, \<^verbatim>\<open>jws.sign\<close>).\<close>

record GoogleToken =
  token :: "string nullable"
  expiresAt :: "int nullable"
  key :: "string option"
  keyFile :: "string option"
  iss :: "string option"
  sub :: "string option"
  scope :: "string option"
  rawToken :: "TokenData nullable"
  tokenExpires :: "int nullable"
  email :: "string option"
  additionalClaims :: "claims option"

section \<open>The collaborators\<close>

text \<open>What the class reads from outside: the clock (read once by \<^verbatim>\<open>hasExpired\<close> and
  once by \<^verbatim>\<open>requestToken\<close>), the \<^verbatim>\<open>mime\<close>, \<^verbatim>\<open>fs\<close>, \<^verbatim>\<open>google-p12-pem\<close> and
  \<^verbatim>\<open>jws\<close> modules, and the two axios calls. The proxy agent only changes how the
  request travels and is left out.\<close>

record key_file_body =
  private_key :: "string option"
  client_email :: "string option"

record env =
  now :: int
  now_request :: int
  mime_getType :: "string \<Rightarrow> string option"
  readFile :: "string \<Rightarrow> js_error + string"
  JSON_parse :: "string \<Rightarrow> js_error + key_file_body"
  getPem :: "string \<Rightarrow> js_error + string"
  jws_sign :: "claims \<Rightarrow> string option \<Rightarrow> js_error + string"
  axios_post :: "string \<Rightarrow> (string \<times> string) list \<Rightarrow> axios_error + TokenData"
  axios_get :: "string \<Rightarrow> axios_error + unit"

text \<open>Every file read and network call an operation makes is logged, in order.\<close>

datatype event =
    FileRead string
  | HttpPost string "(string \<times> string) list"
  | HttpGet string

fun is_network_call :: "event \<Rightarrow> bool" where
  "is_network_call (FileRead f) = False"
| "is_network_call (HttpPost u b) = True"
| "is_network_call (HttpGet u) = True"

fun is_file_read :: "event \<Rightarrow> bool" where
  "is_file_read (FileRead f) = True"
| "is_file_read (HttpPost u b) = False"
| "is_file_read (HttpGet u) = False"

definition network_calls :: "event list \<Rightarrow> nat" where
  "network_calls evs = length (filter is_network_call evs)"

definition file_reads :: "event list \<Rightarrow> nat" where
  "file_reads evs = length (filter is_file_read evs)"

section \<open>The class GoogleToken\<close>

text \<open>\<^verbatim>\<open>options.scope.join(' ')\<close>\<close>

fun join_space :: "string list \<Rightarrow> string" where
  "join_space [] = []"
| "join_space [x] = x"
| "join_space (x # y # ys) = x @ '' '' @ join_space (y # ys)"

definition configure :: "TokenOptions \<Rightarrow> GoogleToken \<Rightarrow> GoogleToken" where
  "configure options s =
     s\<lparr> keyFile := opt_keyFile options,
        key := opt_key options,
        token := Null, expiresAt := Null, rawToken := Null,
        iss := js_or (opt_email options) (opt_iss options),
        sub := opt_sub options,
        additionalClaims := opt_additionalClaims options,
        scope := (case opt_scope options of
                    Some (ScopeArray xs) \<Rightarrow> Some (join_space xs)
                  | Some (ScopeString x) \<Rightarrow> Some x
                  | None \<Rightarrow> None) \<rparr>"

definition no_options :: TokenOptions where
  "no_options = \<lparr> opt_keyFile = None, opt_key = None, opt_email = None, opt_iss = None,
                  opt_sub = None, opt_scope = None, opt_additionalClaims = None \<rparr>"

text \<open>The field initialisers of the class.\<close>

definition fresh_fields :: GoogleToken where
  "fresh_fields = \<lparr> token = Null, expiresAt = Null, key = None, keyFile = None, iss = None,
                     sub = None, scope = None, rawToken = Null, tokenExpires = Null,
                     email = None, additionalClaims = None \<rparr>"

definition newGoogleToken :: "TokenOptions option \<Rightarrow> GoogleToken" where
  "newGoogleToken options =
     configure (case options of None \<Rightarrow> no_options | Some opts \<Rightarrow> opts) fresh_fields"

definition hasExpired :: "int \<Rightarrow> GoogleToken \<Rightarrow> bool" where
  "hasExpired now_ms s =
     (if truthy_str (token s) \<and> truthy_num (expiresAt s)
      then (case expiresAt s of Defined t \<Rightarrow> now_ms \<ge> t | Null \<Rightarrow> True | Undefined \<Rightarrow> True)
      else True)"

definition missing_credentials :: js_error where
  "missing_credentials =
     ErrorWithCode ''private_key and client_email are required.'' ''MISSING_CREDENTIALS''"

definition unknown_certificate_type :: js_error where
  "unknown_certificate_type =
     ErrorWithCode
       (''Unknown certificate type. Type is determined based on file extension. '' @
        ''Current supported extensions are *.json, *.pem, and *.p12.'')
       ''UNKNOWN_CERTIFICATE_TYPE''"

definition getCredentials :: "env \<Rightarrow> string \<Rightarrow> (js_error + Credentials) \<times> event list" where
  "getCredentials e kf =
     (let mimeType = mime_getType e kf in
      if mimeType = Some ''application/json'' then
        (case readFile e kf of
           Inl err \<Rightarrow> (Inl err, [FileRead kf])
         | Inr txt \<Rightarrow>
            (case JSON_parse e txt of
               Inl err \<Rightarrow> (Inl err, [FileRead kf])
             | Inr body \<Rightarrow>
                (if truthy (private_key body) \<and> truthy (client_email body)
                 then (Inr \<lparr> privateKey = opt_str (private_key body),
                              clientEmail = client_email body \<rparr>, [FileRead kf])
                 else (Inl missing_credentials, [FileRead kf]))))
      else if mimeType = Some ''application/x-x509-ca-cert'' then
        (case readFile e kf of
           Inl err \<Rightarrow> (Inl err, [FileRead kf])
         | Inr txt \<Rightarrow> (Inr \<lparr> privateKey = txt, clientEmail = None \<rparr>, [FileRead kf]))
      else if mimeType = Some ''application/x-pkcs12'' then
        (case getPem e kf of
           Inl err \<Rightarrow> (Inl err, [FileRead kf])
         | Inr pem \<Rightarrow> (Inr \<lparr> privateKey = pem, clientEmail = None \<rparr>, [FileRead kf]))
      else (Inl unknown_certificate_type, []))"

definition ensureEmail :: "GoogleToken \<Rightarrow> js_error option" where
  "ensureEmail s =
     (if truthy (iss s) then None
      else Some (ErrorWithCode ''email is required.'' ''MISSING_CREDENTIALS''))"

text \<open>The six standard claims, and \<^verbatim>\<open>Object.assign(target, source)\<close>: every property of
  the source is written to the target, over a property of the same name.\<close>

definition standard_claims :: "GoogleToken \<Rightarrow> int \<Rightarrow> claims" where
  "standard_claims s iat =
     [ ''iss'' \<mapsto> jsval_of (iss s),
       ''scope'' \<mapsto> jsval_of (scope s),
       ''aud'' \<mapsto> JStr GOOGLE_TOKEN_URL,
       ''exp'' \<mapsto> JNum (iat + 3600),
       ''iat'' \<mapsto> JNum iat,
       ''sub'' \<mapsto> jsval_of (sub s) ]"

definition Object_assign :: "claims \<Rightarrow> claims \<Rightarrow> claims" where
  "Object_assign target source =
     (\<lambda>k. case source k of Some v \<Rightarrow> Some v | None \<Rightarrow> target k)"

definition payload :: "GoogleToken \<Rightarrow> int \<Rightarrow> claims" where
  "payload s iat =
     Object_assign (standard_claims s iat)
       (case additionalClaims s of None \<Rightarrow> Map.empty | Some c \<Rightarrow> c)"

definition token_form :: "string \<Rightarrow> (string \<times> string) list" where
  "token_form signedJWT =
     [ (''grant_type'', ''urn:ietf:params:oauth:grant-type:jwt-bearer''),
       (''assertion'', signedJWT) ]"

text \<open>\<^verbatim>\<open>(e.response && e.response.data) ? e.response.data : {}\<close>\<close>

definition body_of :: "axios_error \<Rightarrow> error_body" where
  "body_of e =
     (case response e of
        None \<Rightarrow> \<lparr> error = None, error_description = None \<rparr>
      | Some r \<Rightarrow>
          (case data r of
             None \<Rightarrow> \<lparr> error = None, error_description = None \<rparr>
           | Some b \<Rightarrow> b))"

text \<open>The error the \<^verbatim>\<open>catch\<close> handler of \<^verbatim>\<open>requestToken\<close> throws.\<close>

definition exchange_error :: "axios_error \<Rightarrow> js_error" where
  "exchange_error e =
     (let body = body_of e in
      if truthy (error body) then
        (let desc = (if truthy (error_description body)
                     then '': '' @ opt_str (error_description body) else [])
         in Error (opt_str (error body) @ desc))
      else Rejected e)"

definition requestToken ::
  "env \<Rightarrow> GoogleToken \<Rightarrow> (js_error + string nullable) \<times> GoogleToken \<times> event list" where
  "requestToken e s =
     (let iat = now_request e div 1000 in
      case jws_sign e (payload s iat) (key s) of
        Inl err \<Rightarrow> (Inl err, s, [])
      | Inr signedJWT \<Rightarrow>
         (case axios_post e GOOGLE_TOKEN_URL (token_form signedJWT) of
            Inr d \<Rightarrow>
              (let s' = s\<lparr> rawToken := Defined d,
                           token := access_token d,
                           expiresAt := (case expires_in d of
                                           Null \<Rightarrow> Null
                                         | Undefined \<Rightarrow> Null
                                         | Defined n \<Rightarrow> Defined ((iat + n) * 1000)) \<rparr>
               in (Inr (token s'), s', [HttpPost GOOGLE_TOKEN_URL (token_form signedJWT)]))
          | Inl err \<Rightarrow>
              (let s' = s\<lparr> token := Null, tokenExpires := Null \<rparr>
               in (Inl (exchange_error err), s',
                   [HttpPost GOOGLE_TOKEN_URL (token_form signedJWT)]))))"

definition getTokenAsync ::
  "env \<Rightarrow> GoogleToken \<Rightarrow> (js_error + string nullable) \<times> GoogleToken \<times> event list" where
  "getTokenAsync e s =
     (if \<not> hasExpired (now e) s then (Inr (token s), s, [])
      else if \<not> truthy (key s) \<and> \<not> truthy (keyFile s)
      then (Inl (Error ''No key or keyFile set.''), s, [])
      else if \<not> truthy (key s) \<and> truthy (keyFile s) then
        (case getCredentials e (opt_str (keyFile s)) of
           (Inl err, evs) \<Rightarrow> (Inl err, s, evs)
         | (Inr creds, evs) \<Rightarrow>
            (let s1 = s\<lparr> key := Some (privateKey creds),
                         iss := js_or (clientEmail creds) (iss s) \<rparr>
             in case (if truthy (clientEmail creds) then None else ensureEmail s1) of
                  Some err \<Rightarrow> (Inl err, s1, evs)
                | None \<Rightarrow>
                    (case requestToken e s1 of (r, s2, evs2) \<Rightarrow> (r, s2, evs @ evs2))))
      else requestToken e s)"

definition getToken ::
  "env \<Rightarrow> GoogleToken \<Rightarrow> (js_error + string nullable) \<times> GoogleToken \<times> event list" where
  "getToken e s = getTokenAsync e s"

definition revokeTokenAsync ::
  "env \<Rightarrow> GoogleToken \<Rightarrow> (js_error + unit) \<times> GoogleToken \<times> event list" where
  "revokeTokenAsync e s =
     (if \<not> truthy_str (token s) then (Inl (Error ''No token to revoke.''), s, [])
      else
        (let url = GOOGLE_REVOKE_TOKEN_URL @ str_of (token s) in
         case axios_get e url of
           Inl err \<Rightarrow> (Inl (Rejected err), s, [HttpGet url])
         | Inr r \<Rightarrow>
             (Inr (),
              configure \<lparr> opt_keyFile = keyFile s, opt_key = key s, opt_email = iss s,
                          opt_iss = None, opt_sub = sub s,
                          opt_scope = map_option ScopeString (scope s),
                          opt_additionalClaims = additionalClaims s \<rparr> s,
              [HttpGet url])))"

definition revokeToken ::
  "env \<Rightarrow> GoogleToken \<Rightarrow> (js_error + unit) \<times> GoogleToken \<times> event list" where
  "revokeToken e s = revokeTokenAsync e s"


section \<open>The invariant of the token state\<close>

text \<open>The invariant of the data model: \<^verbatim>\<open>token\<close> and \<^verbatim>\<open>expiresAt\<close> are absent (null or
  undefined) together or present together; and a response that carries \<^verbatim>\<open>access_token\<close>
  and \<^verbatim>\<open>expires_in\<close> together or omits both.\<close>

definition token_expiry_paired :: "GoogleToken \<Rightarrow> bool" where
  "token_expiry_paired s = (nullish (token s) = nullish (expiresAt s))"

definition paired_response :: "TokenData \<Rightarrow> bool" where
  "paired_response d = (nullish (access_token d) = nullish (expires_in d))"

section \<open>Example inputs\<close>

text \<open>A scripted set of collaborators: the clock reads \<open>t\<close>, the key file
  \<^verbatim>\<open>k.json\<close> holds the key \<^verbatim>\<open>PK\<close> of \<^verbatim>\<open>E\<close>, signing succeeds, and the two
  network calls answer as given.\<close>

definition demo_env :: "(axios_error + TokenData) \<Rightarrow> (axios_error + unit) \<Rightarrow> int \<Rightarrow> env" where
  "demo_env post_result get_result t =
     \<lparr> now = t, now_request = t,
       mime_getType = (\<lambda>f. if f = ''k.json'' then Some ''application/json'' else None),
       readFile = (\<lambda>f. Inr ''{}''),
       JSON_parse = (\<lambda>txt. Inr \<lparr> private_key = Some ''PK'', client_email = Some ''E'' \<rparr>),
       getPem = (\<lambda>f. Inr ''PEM''),
       jws_sign = (\<lambda>c k. Inr ''JWT''),
       axios_post = (\<lambda>u b. post_result),
       axios_get = (\<lambda>u. get_result) \<rparr>"

text \<open>A token response, in its \<^verbatim>\<open>access_token\<close> and \<^verbatim>\<open>expires_in\<close>.\<close>

definition demo_data :: "string nullable \<Rightarrow> int nullable \<Rightarrow> TokenData" where
  "demo_data tok exp_in =
     \<lparr> refresh_token = Undefined, expires_in = exp_in, access_token = tok,
       token_type = Defined ''Bearer'', id_token = Undefined \<rparr>"

text \<open>A response of status 400 with the given body.\<close>

definition demo_failure :: "error_body option \<Rightarrow> axios_error" where
  "demo_failure b =
     \<lparr> message = ''Request failed with status code 400'',
       response = Some \<lparr> status = 400, data = b \<rparr> \<rparr>"

text \<open>Options with a key and an issuer; options with a key file only.\<close>

definition key_options :: TokenOptions where
  "key_options = no_options\<lparr> opt_key := Some ''PK'', opt_email := Some ''E'' \<rparr>"

definition keyFile_options :: TokenOptions where
  "keyFile_options = no_options\<lparr> opt_keyFile := Some ''k.json'' \<rparr>"

text \<open>The manager after one successful exchange at time 5000.\<close>

definition issued_state :: GoogleToken where
  "issued_state =
     fst (snd (getToken (demo_env (Inr (demo_data (Defined ''T'') (Defined 3600))) (Inr ()) 5000)
       (newGoogleToken (Some key_options))))"

text \<open>The manager after a successful exchange whose response has no \<^verbatim>\<open>expires_in\<close>.\<close>

definition no_expiry_state :: GoogleToken where
  "no_expiry_state =
     fst (snd (getToken (demo_env (Inr (demo_data (Defined ''T'') Undefined)) (Inr ()) 5000)
       (newGoogleToken (Some key_options))))"

text \<open>A manager with a subject and two additional claims, one of them \<^verbatim>\<open>iss\<close>.\<close>

definition claims_state :: GoogleToken where
  "claims_state =
     newGoogleToken (Some (key_options\<lparr> opt_sub := Some ''S'',
       opt_additionalClaims := Some [''iss'' \<mapsto> JStr ''X'', ''role'' \<mapsto> JNum 1] \<rparr>))"

text \<open>The manager after a successful exchange whose \<^verbatim>\<open>access_token\<close> is the empty string.\<close>

definition empty_token_state :: GoogleToken where
  "empty_token_state =
     fst (snd (getToken (demo_env (Inr (demo_data (Defined []) (Defined 3600))) (Inr ()) 5000)
       (newGoogleToken (Some key_options))))"

text \<open>The manager after a successful exchange whose response has no \<^verbatim>\<open>access_token\<close>.\<close>

definition absent_token_state :: GoogleToken where
  "absent_token_state =
     fst (snd (getToken (demo_env (Inr (demo_data Undefined (Defined 3600))) (Inr ()) 5000)
       (newGoogleToken (Some key_options))))"

text \<open>The refusal \<^verbatim>\<open>invalid_grant\<close>, with or without a description.\<close>

definition invalid_grant :: "string option \<Rightarrow> axios_error" where
  "invalid_grant description =
     demo_failure (Some \<lparr> error = Some ''invalid_grant'', error_description = description \<rparr>)"

text \<open>A manager whose token, issued at time 0 for one second, expired at 1000; and the same
  manager after an exchange at time 5000 that was refused.\<close>

definition expired_state :: GoogleToken where
  "expired_state =
     fst (snd (getToken (demo_env (Inr (demo_data (Defined ''OLD'') (Defined 1))) (Inr ()) 0)
       (newGoogleToken (Some key_options))))"

definition failed_state :: GoogleToken where
  "failed_state =
     fst (snd (getToken (demo_env (Inl (invalid_grant (Some ''bad''))) (Inr ()) 5000)
       expired_state))"


text \<open>A manager configured with the key file only, after one successful exchange at time
  5000, and the same manager after a successful revoke.\<close>

definition keyFile_issued_state :: GoogleToken where
  "keyFile_issued_state =
     fst (snd (getToken (demo_env (Inr (demo_data (Defined ''T'') (Defined 3600))) (Inr ()) 5000)
       (newGoogleToken (Some keyFile_options))))"

definition revoked_state :: GoogleToken where
  "revoked_state =
     fst (snd (revokeToken (demo_env (Inr (demo_data (Defined ''T'') (Defined 3600))) (Inr ()) 6000)
       keyFile_issued_state))"

lemmas demo_defs = demo_env_def demo_data_def demo_failure_def key_options_def
  keyFile_options_def no_options_def fresh_fields_def newGoogleToken_def configure_def
  js_or_def

lemmas op_defs = getToken_def getTokenAsync_def requestToken_def revokeToken_def
  revokeTokenAsync_def hasExpired_def getCredentials_def ensureEmail_def exchange_error_def
  body_of_def token_form_def GOOGLE_TOKEN_URL_def GOOGLE_REVOKE_TOKEN_URL_def

section \<open>The three outcomes of requestToken\<close>

lemma requestToken_sign_failed:
  "jws_sign e (payload s (now_request e div 1000)) (key s) = Inl err \<Longrightarrow>
   requestToken e s = (Inl err, s, [])"
  by (simp add: requestToken_def)

lemma requestToken_succeeded:
  "jws_sign e (payload s (now_request e div 1000)) (key s) = Inr jwt \<Longrightarrow>
   axios_post e GOOGLE_TOKEN_URL (token_form jwt) = Inr d \<Longrightarrow>
   requestToken e s =
     (Inr (access_token d),
      s\<lparr> rawToken := Defined d, token := access_token d,
         expiresAt := (case expires_in d of Null \<Rightarrow> Null | Undefined \<Rightarrow> Null
                       | Defined n \<Rightarrow> Defined ((now_request e div 1000 + n) * 1000)) \<rparr>,
      [HttpPost GOOGLE_TOKEN_URL (token_form jwt)])"
  by (simp add: requestToken_def Let_def)


section \<open>Revocation\<close>

text \<open>C6. Whenever \<^verbatim>\<open>revokeToken()\<close> is called on a manager holding no token (the
  token is null, undefined or the empty string), it fails with the error
  \<^verbatim>\<open>No token to revoke.\<close>, leaves the state as it is and makes no network call.\<close>
theorem revoke_without_token:
  "\<not> truthy_str (token s) \<Longrightarrow>
   revokeToken e s = (Inl (Error ''No token to revoke.''), s, []) \<and>
   network_calls (snd (snd (revokeToken e s))) = 0"
  by (simp add: revokeToken_def revokeTokenAsync_def network_calls_def)

theorem revoke_without_token_witness:
  "\<not> truthy_str (token (newGoogleToken (Some key_options))) \<and>
   revokeToken (demo_env (Inr (demo_data (Defined ''T'') (Defined 3600))) (Inr ()) 5000)
       (newGoogleToken (Some key_options))
     = (Inl (Error ''No token to revoke.''), newGoogleToken (Some key_options), []) \<and>
   network_calls (snd (snd (revokeToken
       (demo_env (Inr (demo_data (Defined ''T'') (Defined 3600))) (Inr ()) 5000)
       (newGoogleToken (Some key_options))))) = 0"
proof -
  have h: "\<not> truthy_str (token (newGoogleToken (Some key_options)))"
    by (simp add: demo_defs)
  show ?thesis
    using h revoke_without_token [OF h,
      of "demo_env (Inr (demo_data (Defined ''T'') (Defined 3600))) (Inr ()) 5000"]
    by blast
qed

text \<open>C7. Whenever the revocation network call fails, \<^verbatim>\<open>revokeToken()\<close> passes the
  rejection on and the manager's state, every field of it, is exactly what it was before
  the call; the one network call made is the GET of the revoke URL.\<close>
theorem revoke_failure_keeps_state:
  "truthy_str (token s) \<Longrightarrow>
   axios_get e (GOOGLE_REVOKE_TOKEN_URL @ str_of (token s)) = Inl err \<Longrightarrow>
   revokeToken e s =
     (Inl (Rejected err), s, [HttpGet (GOOGLE_REVOKE_TOKEN_URL @ str_of (token s))])"
  by (simp add: revokeToken_def revokeTokenAsync_def Let_def)

lemma issued_state_eq:
  "issued_state =
     \<lparr> token = Defined ''T'', expiresAt = Defined 3605000, key = Some ''PK'', keyFile = None,
       iss = Some ''E'', sub = None, scope = None,
       rawToken = Defined (demo_data (Defined ''T'') (Defined 3600)),
       tokenExpires = Null, email = None, additionalClaims = None \<rparr>"
  by (simp add: issued_state_def demo_defs op_defs)

theorem revoke_failure_keeps_state_witness:
  "truthy_str (token issued_state) \<and>
   revokeToken (demo_env (Inl (demo_failure None)) (Inl (demo_failure None)) 6000) issued_state =
     (Inl (Rejected (demo_failure None)), issued_state,
      [HttpGet ''https://accounts.google.com/o/oauth2/revoke?token=T''])"
proof -
  let ?e = "demo_env (Inl (demo_failure None)) (Inl (demo_failure None)) 6000"
  have h: "truthy_str (token issued_state)"
    by (simp add: issued_state_eq)
  have g: "axios_get ?e (GOOGLE_REVOKE_TOKEN_URL @ str_of (token issued_state))
             = Inl (demo_failure None)"
    by (simp add: demo_env_def)
  have u: "GOOGLE_REVOKE_TOKEN_URL @ str_of (token issued_state)
             = ''https://accounts.google.com/o/oauth2/revoke?token=T''"
    by (simp add: issued_state_eq GOOGLE_REVOKE_TOKEN_URL_def)
  show ?thesis
    using h revoke_failure_keeps_state [OF h g] unfolding u by blast
qed

section \<open>Returning the cached token\<close>

lemma network_calls_append: "network_calls (xs @ ys) = network_calls xs + network_calls ys"
  by (simp add: network_calls_def)

lemma getCredentials_network_calls: "getCredentials e kf = (r, evs) \<Longrightarrow> network_calls evs = 0"
  by (auto simp: getCredentials_def network_calls_def Let_def split: sum.splits if_splits)

lemma requestToken_success_events:
  "requestToken e s = (Inr t, s', evs) \<Longrightarrow> network_calls evs = 1 \<and> t = token s'"
  by (auto simp: requestToken_def Let_def network_calls_def split: sum.splits)

lemma getTokenAsync_refresh_success:
  assumes "hasExpired (now e) s" and "getTokenAsync e s = (Inr t, s', evs)"
  shows "network_calls evs = 1 \<and> t = token s'"
proof (cases "\<not> truthy (key s) \<and> truthy (keyFile s)")
  case False
  with assms have "requestToken e s = (Inr t, s', evs)"
    by (auto simp: getTokenAsync_def split: if_splits)
  then show ?thesis by (rule requestToken_success_events)
next
  case True
  obtain rc evc where c: "getCredentials e (opt_str (keyFile s)) = (rc, evc)"
    by (cases "getCredentials e (opt_str (keyFile s))")
  from assms True c obtain s1 evs2 where
    r: "requestToken e s1 = (Inr t, s', evs2)" and ev: "evs = evc @ evs2"
    by (auto simp: getTokenAsync_def Let_def split: if_splits sum.splits option.splits prod.splits)
  from r have "network_calls evs2 = 1 \<and> t = token s'" by (rule requestToken_success_events)
  with getCredentials_network_calls [OF c] ev show ?thesis
    by (simp add: network_calls_append)
qed

text \<open>C8. Whenever \<^verbatim>\<open>getToken()\<close> is called in a state where \<^verbatim>\<open>hasExpired()\<close> is
  false, it returns the cached token, the state is unchanged and nothing is read or sent
  (the event log is empty). Consequently, when a first call has to fetch a token and
  succeeds, and a second call finds that token not expired, the second call returns the
  same token and the two calls together make exactly one network call.\<close>

theorem cached_token_no_io:
  "(\<not> hasExpired (now e) s \<longrightarrow> getToken e s = (Inr (token s), s, [])) \<and>
   (hasExpired (now e1) s0 \<and> getToken e1 s0 = (Inr t, s1, evs1) \<and>
    \<not> hasExpired (now e2) s1 \<longrightarrow>
      getToken e2 s1 = (Inr t, s1, []) \<and>
      network_calls (evs1 @ snd (snd (getToken e2 s1))) = 1)"
proof (intro conjI impI)
  assume "\<not> hasExpired (now e) s"
  then show "getToken e s = (Inr (token s), s, [])"
    by (simp add: getToken_def getTokenAsync_def)
next
  assume a: "hasExpired (now e1) s0 \<and> getToken e1 s0 = (Inr t, s1, evs1) \<and>
    \<not> hasExpired (now e2) s1"
  then have f: "network_calls evs1 = 1 \<and> t = token s1"
    using getTokenAsync_refresh_success [of e1 s0 t s1 evs1] by (simp add: getToken_def)
  from a have c: "getToken e2 s1 = (Inr (token s1), s1, [])"
    by (simp add: getToken_def getTokenAsync_def)
  with f show "getToken e2 s1 = (Inr t, s1, [])" by simp
  from c f show "network_calls (evs1 @ snd (snd (getToken e2 s1))) = 1" by simp
qed

theorem cached_token_no_io_witness:
  "\<not> hasExpired 6000 issued_state \<and>
   getToken (demo_env (Inl (demo_failure None)) (Inr ()) 6000) issued_state
     = (Inr (Defined ''T''), issued_state, []) \<and>
   hasExpired 5000 (newGoogleToken (Some key_options)) \<and>
   network_calls
     (snd (snd (getToken (demo_env (Inr (demo_data (Defined ''T'') (Defined 3600))) (Inr ()) 5000)
        (newGoogleToken (Some key_options)))) @
      snd (snd (getToken (demo_env (Inl (demo_failure None)) (Inr ()) 6000) issued_state))) = 1"
proof -
  let ?e1 = "demo_env (Inr (demo_data (Defined ''T'') (Defined 3600))) (Inr ()) 5000"
  let ?e2 = "demo_env (Inl (demo_failure None)) (Inr ()) 6000"
  let ?s = "newGoogleToken (Some key_options)"
  have n1: "now ?e1 = 5000" and n2: "now ?e2 = 6000"
    by (simp_all add: demo_env_def)
  have h1: "hasExpired 5000 ?s"
    by (simp add: demo_defs hasExpired_def)
  have h2: "\<not> hasExpired 6000 issued_state"
    by (simp add: issued_state_eq hasExpired_def)
  have g: "getToken ?e1 ?s
             = (Inr (Defined ''T''), issued_state, snd (snd (getToken ?e1 ?s)))"
    by (simp add: issued_state_eq) (simp add: demo_defs op_defs)
  have tk: "token issued_state = Defined ''T''"
    by (simp add: issued_state_eq)
  have h1': "hasExpired (now ?e1) ?s" unfolding n1 by (rule h1)
  have h2': "\<not> hasExpired (now ?e2) issued_state" unfolding n2 by (rule h2)
  note T = cached_token_no_io [of ?e2 issued_state ?e1 ?s "Defined ''T''" issued_state
      "snd (snd (getToken ?e1 ?s))" ?e2]
  from T h2' have A: "getToken ?e2 issued_state = (Inr (token issued_state), issued_state, [])"
    by blast
  from T h1' h2' g have B:
    "network_calls (snd (snd (getToken ?e1 ?s)) @ snd (snd (getToken ?e2 issued_state))) = 1"
    by blast
  from A tk have A': "getToken ?e2 issued_state = (Inr (Defined ''T''), issued_state, [])"
    by (simp only:)
  from h2 A' h1 B show ?thesis by blast
qed

section \<open>Expiry\<close>

lemma requestToken_success_state:
  assumes "requestToken e s = (Inr t, s', evs)"
  shows "\<exists>d. rawToken s' = Defined d \<and> token s' = access_token d \<and> t = access_token d \<and>
             expiresAt s' = (case expires_in d of Null \<Rightarrow> Null | Undefined \<Rightarrow> Null
                | Defined n \<Rightarrow> Defined ((now_request e div 1000 + n) * 1000)) \<and>
             key s' = key s \<and> keyFile s' = keyFile s \<and> additionalClaims s' = additionalClaims s \<and>
             iss s' = iss s \<and> sub s' = sub s \<and> scope s' = scope s"
  using assms by (auto simp: requestToken_def Let_def split: sum.splits)

lemma no_expiry_state_eq:
  "no_expiry_state =
     \<lparr> token = Defined ''T'', expiresAt = Null, key = Some ''PK'', keyFile = None,
       iss = Some ''E'', sub = None, scope = None,
       rawToken = Defined (demo_data (Defined ''T'') Undefined),
       tokenExpires = Null, email = None, additionalClaims = None \<rparr>"
  by (simp add: no_expiry_state_def demo_defs op_defs)

text \<open>C1 (as stated, refuted): after a successful exchange whose response has an
  \<^verbatim>\<open>access_token\<close> and no \<^verbatim>\<open>expires_in\<close>, the manager holds the token, records no
  \<^verbatim>\<open>expiresAt\<close>, and \<^verbatim>\<open>hasExpired()\<close> returns true, not false.\<close>

theorem token_without_expiry_counterexample:
  "fst (getToken (demo_env (Inr (demo_data (Defined ''T'') Undefined)) (Inr ()) 5000)
          (newGoogleToken (Some key_options))) = Inr (Defined ''T'') \<and>
   token no_expiry_state = Defined ''T'' \<and>
   expiresAt no_expiry_state = Null \<and>
   hasExpired 5000 no_expiry_state \<noteq> False"
  by (simp add: no_expiry_state_eq) (simp add: demo_defs op_defs)

text \<open>C1 (amended). For every manager state reached by a successful exchange whose
  response omitted \<^verbatim>\<open>expires_in\<close> (null or undefined), the token is the response's
  \<^verbatim>\<open>access_token\<close>, \<^verbatim>\<open>expiresAt\<close> is null, and \<^verbatim>\<open>hasExpired()\<close> returns true at every
  time: a token with no recorded expiry is treated as expired, as the no-token state is.\<close>

theorem token_without_expiry_has_expired:
  assumes "requestToken e s = (Inr t, s', evs)"
    and "rawToken s' = Defined d"
    and "nullish (expires_in d)"
  shows "token s' = access_token d \<and> expiresAt s' = Null \<and> hasExpired now_ms s'"
proof -
  from requestToken_success_state [OF assms(1)] assms(2)
  have tk: "token s' = access_token d"
    and ex: "expiresAt s' = (case expires_in d of Null \<Rightarrow> Null | Undefined \<Rightarrow> Null
                | Defined n \<Rightarrow> Defined ((now_request e div 1000 + n) * 1000))"
    by auto
  from ex assms(3) have "expiresAt s' = Null"
    by (cases "expires_in d") simp_all
  with tk show ?thesis by (simp add: hasExpired_def)
qed

theorem token_without_expiry_has_expired_witness:
  "nullish (expires_in (demo_data (Defined ''T'') Undefined)) \<and>
   requestToken (demo_env (Inr (demo_data (Defined ''T'') Undefined)) (Inr ()) 5000)
       (newGoogleToken (Some key_options))
     = (Inr (Defined ''T''), no_expiry_state,
        [HttpPost GOOGLE_TOKEN_URL (token_form ''JWT'')]) \<and>
   token no_expiry_state = access_token (demo_data (Defined ''T'') Undefined) \<and>
   expiresAt no_expiry_state = Null \<and>
   hasExpired 99999999 no_expiry_state"
proof -
  let ?d = "demo_data (Defined ''T'') Undefined"
  let ?e = "demo_env (Inr ?d) (Inr ()) 5000"
  have r: "requestToken ?e (newGoogleToken (Some key_options))
             = (Inr (Defined ''T''), no_expiry_state,
                [HttpPost GOOGLE_TOKEN_URL (token_form ''JWT'')])"
    by (simp add: no_expiry_state_eq) (simp add: demo_defs op_defs)
  have w: "rawToken no_expiry_state = Defined ?d"
    by (simp add: no_expiry_state_eq)
  have n: "nullish (expires_in ?d)"
    by (simp add: demo_data_def)
  from token_without_expiry_has_expired [OF r w n, of 99999999] n r
  show ?thesis by blast
qed

section \<open>The payload\<close>

text \<open>C9. In the payload that \<^verbatim>\<open>requestToken()\<close> signs, \<^verbatim>\<open>additionalClaims\<close> is merged
  over the standard claims \<^verbatim>\<open>iss, scope, aud, exp, iat, sub\<close>: every key of
  \<^verbatim>\<open>additionalClaims\<close> has the value given there, every other key has the value
  of the standard claims, and without \<^verbatim>\<open>additionalClaims\<close> the payload is the standard
  claims.\<close>

theorem additional_claims_override:
  "(additionalClaims s = Some ac \<and> ac k = Some v \<longrightarrow> payload s iat k = Some v) \<and>
   (additionalClaims s = Some ac \<and> ac k = None \<longrightarrow> payload s iat k = standard_claims s iat k) \<and>
   (additionalClaims s = None \<longrightarrow> payload s iat = standard_claims s iat) \<and>
   dom (standard_claims s iat) = {''iss'', ''scope'', ''aud'', ''exp'', ''iat'', ''sub''}"
  by (auto simp: payload_def Object_assign_def standard_claims_def split: if_splits)

theorem additional_claims_override_witness:
  "payload claims_state 5 ''iss'' = Some (JStr ''X'') \<and>
   standard_claims claims_state 5 ''iss'' = Some (JStr ''E'') \<and>
   payload claims_state 5 ''sub'' = Some (JStr ''S'') \<and>
   payload claims_state 5 ''exp'' = Some (JNum 3605) \<and>
   payload claims_state 5 ''role'' = Some (JNum 1) \<and>
   payload (newGoogleToken (Some key_options)) 5
     = standard_claims (newGoogleToken (Some key_options)) 5"
proof -
  let ?ac = "[''iss'' \<mapsto> JStr ''X'', ''role'' \<mapsto> JNum 1]"
  have a: "additionalClaims claims_state = Some ?ac"
    by (simp add: claims_state_def demo_defs)
  have n: "additionalClaims (newGoogleToken (Some key_options)) = None"
    by (simp add: demo_defs)
  have v1: "?ac ''iss'' = Some (JStr ''X'')" and v2: "?ac ''role'' = Some (JNum 1)"
    and v3: "?ac ''sub'' = None" and v4: "?ac ''exp'' = None"
    by simp_all
  have s1: "standard_claims claims_state 5 ''iss'' = Some (JStr ''E'')"
    and s2: "standard_claims claims_state 5 ''sub'' = Some (JStr ''S'')"
    and s3: "standard_claims claims_state 5 ''exp'' = Some (JNum 3605)"
    by (simp_all add: claims_state_def demo_defs standard_claims_def)
  from additional_claims_override [of claims_state ?ac "''iss''" "JStr ''X''" 5] a v1
  have p1: "payload claims_state 5 ''iss'' = Some (JStr ''X'')" by blast
  from additional_claims_override [of claims_state ?ac "''role''" "JNum 1" 5] a v2
  have p2: "payload claims_state 5 ''role'' = Some (JNum 1)" by blast
  from additional_claims_override [of claims_state ?ac "''sub''" v 5] a v3 s2
  have p3: "payload claims_state 5 ''sub'' = Some (JStr ''S'')" by simp
  from additional_claims_override [of claims_state ?ac "''exp''" v 5] a v4 s3
  have p4: "payload claims_state 5 ''exp'' = Some (JNum 3605)" by simp
  from additional_claims_override [of "newGoogleToken (Some key_options)" ac k v 5] n
  have p5: "payload (newGoogleToken (Some key_options)) 5
     = standard_claims (newGoogleToken (Some key_options)) 5" by blast
  from p1 s1 p3 p4 p2 p5 show ?thesis by blast
qed

section \<open>A token that is absent or empty\<close>

lemma empty_token_state_eq:
  "empty_token_state =
     \<lparr> token = Defined [], expiresAt = Defined 3605000, key = Some ''PK'', keyFile = None,
       iss = Some ''E'', sub = None, scope = None,
       rawToken = Defined (demo_data (Defined []) (Defined 3600)),
       tokenExpires = Null, email = None, additionalClaims = None \<rparr>"
  by (simp add: empty_token_state_def demo_defs op_defs)

lemma getToken_with_key:
  assumes "hasExpired (now e) s" and "truthy (key s)"
  shows "getToken e s = requestToken e s"
  using assms by (simp add: getToken_def getTokenAsync_def)

lemma absent_token_state_eq:
  "absent_token_state =
     \<lparr> token = Undefined, expiresAt = Defined 3605000, key = Some ''PK'', keyFile = None,
       iss = Some ''E'', sub = None, scope = None,
       rawToken = Defined (demo_data Undefined (Defined 3600)),
       tokenExpires = Null, email = None, additionalClaims = None \<rparr>"
  by (simp add: absent_token_state_def demo_defs op_defs Let_def)

text \<open>C10. When the signed assertion is posted and the answer \<open>d\<close> of the token endpoint
  omits \<^verbatim>\<open>access_token\<close> (undefined or null) or carries the empty string, the exchange
  succeeds: \<^verbatim>\<open>requestToken()\<close> returns that value of the answer, stores it as the token,
  stores the answer as \<^verbatim>\<open>rawToken\<close> and records \<^verbatim>\<open>expiresAt\<close> from the answer's
  \<^verbatim>\<open>expires_in\<close>. \<^verbatim>\<open>hasExpired()\<close> is then true at every time, whatever \<^verbatim>\<open>expiresAt\<close>
  was recorded, so the next \<^verbatim>\<open>getToken()\<close> does not answer from the cache: with a key
  at hand and a signature made, it posts a fresh exchange.\<close>

theorem falsy_token_never_cached:
  assumes "jws_sign e (payload s (now_request e div 1000)) (key s) = Inr jwt"
    and "axios_post e GOOGLE_TOKEN_URL (token_form jwt) = Inr d"
    and "\<not> truthy_str (access_token d)"
  shows "requestToken e s =
           (Inr (access_token d),
            s\<lparr> rawToken := Defined d, token := access_token d,
               expiresAt := (case expires_in d of Null \<Rightarrow> Null | Undefined \<Rightarrow> Null
                             | Defined n \<Rightarrow> Defined ((now_request e div 1000 + n) * 1000)) \<rparr>,
            [HttpPost GOOGLE_TOKEN_URL (token_form jwt)]) \<and>
         token (fst (snd (requestToken e s))) = access_token d \<and>
         hasExpired now_ms (fst (snd (requestToken e s))) \<and>
         (truthy (key s) \<and>
          jws_sign e2 (payload (fst (snd (requestToken e s))) (now_request e2 div 1000)) (key s)
            = Inr jwt2 \<longrightarrow>
            getToken e2 (fst (snd (requestToken e s)))
              = requestToken e2 (fst (snd (requestToken e s))) \<and>
            snd (snd (getToken e2 (fst (snd (requestToken e s)))))
              = [HttpPost GOOGLE_TOKEN_URL (token_form jwt2)])"
proof -
  define s' where "s' = s\<lparr> rawToken := Defined d, token := access_token d,
      expiresAt := (case expires_in d of Null \<Rightarrow> Null | Undefined \<Rightarrow> Null
                    | Defined n \<Rightarrow> Defined ((now_request e div 1000 + n) * 1000)) \<rparr>"
  have r: "requestToken e s =
      (Inr (access_token d), s', [HttpPost GOOGLE_TOKEN_URL (token_form jwt)])"
    unfolding s'_def by (rule requestToken_succeeded [OF assms(1,2)])
  have st: "fst (snd (requestToken e s)) = s'"
    by (simp add: r)
  have tk: "token s' = access_token d" and k: "key s' = key s"
    by (simp_all add: s'_def)
  from tk assms(3) have ex: "hasExpired n s'" for n
    by (simp add: hasExpired_def)
  have nx: "getToken e2 s' = requestToken e2 s' \<and>
            snd (snd (getToken e2 s')) = [HttpPost GOOGLE_TOKEN_URL (token_form jwt2)]"
    if t: "truthy (key s)"
      and j: "jws_sign e2 (payload s' (now_request e2 div 1000)) (key s) = Inr jwt2"
  proof -
    from t k have "truthy (key s')" by simp
    with ex have g: "getToken e2 s' = requestToken e2 s'"
      by (rule getToken_with_key)
    from j k have "snd (snd (requestToken e2 s')) = [HttpPost GOOGLE_TOKEN_URL (token_form jwt2)]"
      by (simp add: requestToken_def Let_def split: sum.splits)
    with g show ?thesis by simp
  qed
  from r tk ex nx show ?thesis
    unfolding st s'_def by blast
qed

theorem falsy_token_never_cached_witness:
  "requestToken (demo_env (Inr (demo_data (Defined []) (Defined 3600))) (Inr ()) 5000)
       (newGoogleToken (Some key_options))
     = (Inr (Defined []), empty_token_state,
        [HttpPost GOOGLE_TOKEN_URL (token_form ''JWT'')]) \<and>
   token empty_token_state = Defined [] \<and>
   expiresAt empty_token_state = Defined 3605000 \<and>
   hasExpired 6000 empty_token_state \<and>
   snd (snd (getToken (demo_env (Inr (demo_data (Defined ''T'') (Defined 3600))) (Inr ()) 6000)
      empty_token_state)) = [HttpPost GOOGLE_TOKEN_URL (token_form ''JWT'')] \<and>
   requestToken (demo_env (Inr (demo_data Undefined (Defined 3600))) (Inr ()) 5000)
       (newGoogleToken (Some key_options))
     = (Inr Undefined, absent_token_state,
        [HttpPost GOOGLE_TOKEN_URL (token_form ''JWT'')]) \<and>
   token absent_token_state = Undefined \<and>
   rawToken absent_token_state = Defined (demo_data Undefined (Defined 3600)) \<and>
   hasExpired 6000 absent_token_state"
proof -
  let ?fresh = "newGoogleToken (Some key_options)"
  let ?empty = "demo_data (Defined []) (Defined 3600)"
  let ?absent = "demo_data Undefined (Defined 3600)"
  let ?ea = "demo_env (Inr ?empty) (Inr ()) 5000"
  let ?eb = "demo_env (Inr ?absent) (Inr ()) 5000"
  let ?next = "demo_env (Inr (demo_data (Defined ''T'') (Defined 3600))) (Inr ()) 6000"
  have ja: "jws_sign ?ea (payload ?fresh (now_request ?ea div 1000)) (key ?fresh) = Inr ''JWT''"
    and jb: "jws_sign ?eb (payload ?fresh (now_request ?eb div 1000)) (key ?fresh) = Inr ''JWT''"
    by (simp_all add: demo_env_def)
  have pa: "axios_post ?ea GOOGLE_TOKEN_URL (token_form ''JWT'') = Inr ?empty"
    and pb: "axios_post ?eb GOOGLE_TOKEN_URL (token_form ''JWT'') = Inr ?absent"
    by (simp_all add: demo_env_def)
  have na: "\<not> truthy_str (access_token ?empty)" and nb: "\<not> truthy_str (access_token ?absent)"
    by (simp_all add: demo_data_def)
  have aa: "access_token ?empty = Defined []" and ab: "access_token ?absent = Undefined"
    by (simp_all add: demo_data_def)
  have qa: "?fresh\<lparr> rawToken := Defined ?empty, token := access_token ?empty,
      expiresAt := (case expires_in ?empty of Null \<Rightarrow> Null | Undefined \<Rightarrow> Null
         | Defined n \<Rightarrow> Defined ((now_request ?ea div 1000 + n) * 1000)) \<rparr> = empty_token_state"
    by (simp add: empty_token_state_eq) (simp add: demo_defs)
  have qb: "?fresh\<lparr> rawToken := Defined ?absent, token := access_token ?absent,
      expiresAt := (case expires_in ?absent of Null \<Rightarrow> Null | Undefined \<Rightarrow> Null
         | Defined n \<Rightarrow> Defined ((now_request ?eb div 1000 + n) * 1000)) \<rparr> = absent_token_state"
    by (simp add: absent_token_state_eq) (simp add: demo_defs)
  have k: "truthy (key ?fresh)"
    by (simp add: demo_defs)
  note A = falsy_token_never_cached [OF ja pa na, of 6000 ?next "''JWT''", unfolded qa]
  note B = falsy_token_never_cached [OF jb pb nb, of 6000 ?next "''JWT''", unfolded qb]
  from A have ra: "requestToken ?ea ?fresh
      = (Inr (access_token ?empty), empty_token_state,
         [HttpPost GOOGLE_TOKEN_URL (token_form ''JWT'')])" by blast
  then have sa: "fst (snd (requestToken ?ea ?fresh)) = empty_token_state" by simp
  from B have rb: "requestToken ?eb ?fresh
      = (Inr (access_token ?absent), absent_token_state,
         [HttpPost GOOGLE_TOKEN_URL (token_form ''JWT'')])" by blast
  then have sb: "fst (snd (requestToken ?eb ?fresh)) = absent_token_state" by simp
  have jn: "jws_sign ?next (payload empty_token_state (now_request ?next div 1000)) (key ?fresh)
      = Inr ''JWT''"
    by (simp add: demo_env_def)
  from ra aa have c1: "requestToken ?ea ?fresh
      = (Inr (Defined []), empty_token_state,
         [HttpPost GOOGLE_TOKEN_URL (token_form ''JWT'')])" by simp
  from A [unfolded sa] aa have c2: "token empty_token_state = Defined []" by simp
  have c3: "expiresAt empty_token_state = Defined 3605000"
    by (simp add: empty_token_state_eq)
  from A [unfolded sa] have c4: "hasExpired 6000 empty_token_state" by blast
  from A [unfolded sa] k jn have c5: "snd (snd (getToken ?next empty_token_state))
      = [HttpPost GOOGLE_TOKEN_URL (token_form ''JWT'')]" by blast
  from rb ab have c6: "requestToken ?eb ?fresh
      = (Inr Undefined, absent_token_state,
         [HttpPost GOOGLE_TOKEN_URL (token_form ''JWT'')])" by simp
  from B [unfolded sb] ab have c7: "token absent_token_state = Undefined" by simp
  have c8: "rawToken absent_token_state = Defined ?absent"
    by (simp add: absent_token_state_eq)
  from B [unfolded sb] have c9: "hasExpired 6000 absent_token_state" by blast
  from c1 c2 c3 c4 c5 c6 c7 c8 c9 show ?thesis by blast
qed

section \<open>A failed exchange\<close>

lemma failed_exchange_state:
  assumes "requestToken e s = (Inl err, s', evs)" and "evs \<noteq> []"
  shows "token s' = Null \<and> tokenExpires s' = Null \<and> expiresAt s' = expiresAt s \<and>
         rawToken s' = rawToken s \<and> hasExpired now_ms s'"
  using assms
  by (auto simp: requestToken_def Let_def hasExpired_def split: sum.splits)

lemma expired_state_eq:
  "expired_state =
     \<lparr> token = Defined ''OLD'', expiresAt = Defined 1000, key = Some ''PK'', keyFile = None,
       iss = Some ''E'', sub = None, scope = None,
       rawToken = Defined (demo_data (Defined ''OLD'') (Defined 1)),
       tokenExpires = Null, email = None, additionalClaims = None \<rparr>"
  by (simp add: expired_state_def demo_defs op_defs)

text \<open>C4 (the code at the failing input). A manager whose token \<^verbatim>\<open>OLD\<close> expired at
  \<^verbatim>\<open>expiresAt = 1000\<close> asks for a token at time 5000 and the exchange is refused. The
  error is surfaced, \<^verbatim>\<open>token\<close> and \<^verbatim>\<open>tokenExpires\<close> are null and \<^verbatim>\<open>hasExpired()\<close> is
  true, but \<^verbatim>\<open>expiresAt\<close>, the expiry that \<^verbatim>\<open>hasExpired()\<close> reads, still holds 1000 and
  \<^verbatim>\<open>rawToken\<close> still holds the old response.\<close>

theorem failed_exchange_keeps_expiresAt:
  "token expired_state = Defined ''OLD'' \<and>
   expiresAt expired_state = Defined 1000 \<and>
   fst (getToken (demo_env (Inl (invalid_grant (Some ''bad''))) (Inr ()) 5000) expired_state)
     = Inl (Error ''invalid_grant: bad'') \<and>
   token failed_state = Null \<and>
   tokenExpires failed_state = Null \<and>
   hasExpired 5000 failed_state \<and>
   expiresAt failed_state = Defined 1000 \<and>
   rawToken failed_state = Defined (demo_data (Defined ''OLD'') (Defined 1))"
  by (simp add: failed_state_def expired_state_eq)
     (simp add: demo_defs op_defs invalid_grant_def)

section \<open>The error of a failed exchange\<close>




section \<open>Token and expiry, set and cleared together\<close>

lemma requestToken_no_network:
  assumes "requestToken e s = (r, s', evs)" and "network_calls evs = 0"
  shows "s' = s"
  using assms
  by (auto simp: requestToken_def Let_def network_calls_def split: sum.splits)

lemma getTokenAsync_cases:
  assumes "getTokenAsync e s = (r, s', evs)"
  shows "(network_calls evs = 0 \<and> token s' = token s \<and> expiresAt s' = expiresAt s) \<or>
         (\<exists>s1 evs1 evs2. requestToken e s1 = (r, s', evs2) \<and> evs = evs1 @ evs2 \<and>
            network_calls evs2 \<noteq> 0)"
proof (cases "hasExpired (now e) s")
  case False
  with assms show ?thesis
    by (simp add: getTokenAsync_def network_calls_def)
next
  case expired: True
  show ?thesis
  proof (cases "truthy (key s)")
    case True
    with assms expired have q: "requestToken e s = (r, s', evs)"
      by (simp add: getTokenAsync_def)
    show ?thesis
    proof (cases "network_calls evs = 0")
      case True
      with requestToken_no_network [OF q True] show ?thesis by simp
    next
      case False
      with q show ?thesis by (metis append_Nil)
    qed
  next
    case nokey: False
    show ?thesis
    proof (cases "truthy (keyFile s)")
      case False
      with assms expired nokey show ?thesis
        by (auto simp: getTokenAsync_def network_calls_def)
    next
      case True
      obtain rc evc where c: "getCredentials e (opt_str (keyFile s)) = (rc, evc)"
        by (cases "getCredentials e (opt_str (keyFile s))")
      have n: "network_calls evc = 0"
        using c by (rule getCredentials_network_calls)
      show ?thesis
      proof (cases rc)
        case (Inl err)
        with assms expired nokey True c n show ?thesis
          by (auto simp: getTokenAsync_def)
      next
        case (Inr creds)
        define s1 where "s1 = s\<lparr> key := Some (privateKey creds),
                                   iss := js_or (clientEmail creds) (iss s) \<rparr>"
        have t1: "token s1 = token s" and x1: "expiresAt s1 = expiresAt s"
          by (simp_all add: s1_def)
        have u: "getTokenAsync e s =
            (case (if truthy (clientEmail creds) then None else ensureEmail s1) of
               Some err \<Rightarrow> (Inl err, s1, evc)
             | None \<Rightarrow> (case requestToken e s1 of (r, s2, evs2) \<Rightarrow> (r, s2, evc @ evs2)))"
          using expired nokey True c Inr unfolding s1_def
          by (simp add: getTokenAsync_def Let_def)
        show ?thesis
        proof (cases "if truthy (clientEmail creds) then None else ensureEmail s1")
          case (Some err)
          with u assms have "s' = s1" "evs = evc" by simp_all
          with n t1 x1 show ?thesis by simp
        next
          case None
          obtain r2 s2 evs2 where q: "requestToken e s1 = (r2, s2, evs2)"
            by (cases "requestToken e s1") auto
          from u assms None q
          have res: "r = r2" "s' = s2" "evs = evc @ evs2"
            by simp_all
          show ?thesis
          proof (cases "network_calls evs2 = 0")
            case True
            from requestToken_no_network [OF q True] res n True t1 x1 show ?thesis
              by (simp add: network_calls_append)
          next
            case False
            with q res show ?thesis by blast
          qed
        qed
      qed
    qed
  qed
qed

text \<open>C2 (as stated, refuted). A successful exchange whose response has an
  \<^verbatim>\<open>access_token\<close> and no \<^verbatim>\<open>expires_in\<close> takes a manager in which token and expiry are
  both null to one in which the token is set and the expiry is null.\<close>

theorem token_expiry_pairing_counterexample:
  "token_expiry_paired (newGoogleToken (Some key_options)) \<and>
   getToken (demo_env (Inr (demo_data (Defined ''T'') Undefined)) (Inr ()) 5000)
       (newGoogleToken (Some key_options))
     = (Inr (Defined ''T''), no_expiry_state,
        [HttpPost GOOGLE_TOKEN_URL (token_form ''JWT'')]) \<and>
   token no_expiry_state = Defined ''T'' \<and>
   expiresAt no_expiry_state = Null \<and>
   \<not> token_expiry_paired no_expiry_state"
  by (simp add: no_expiry_state_eq token_expiry_paired_def)
     (simp add: demo_defs op_defs)

lemma requestToken_success_answer:
  assumes "requestToken e s = (Inr t, s', evs)"
  shows "\<exists>jwt d. jws_sign e (payload s (now_request e div 1000)) (key s) = Inr jwt \<and>
           axios_post e GOOGLE_TOKEN_URL (token_form jwt) = Inr d \<and>
           evs = [HttpPost GOOGLE_TOKEN_URL (token_form jwt)] \<and>
           t = access_token d \<and>
           s' = s\<lparr> rawToken := Defined d, token := access_token d,
                   expiresAt := (case expires_in d of Null \<Rightarrow> Null | Undefined \<Rightarrow> Null
                      | Defined n \<Rightarrow> Defined ((now_request e div 1000 + n) * 1000)) \<rparr>"
  using assms by (auto simp: requestToken_def Let_def split: sum.splits)

text \<open>C2 (amended). Construction leaves token and expiry both null. A \<^verbatim>\<open>revokeToken\<close>
  that succeeds sets both to null, and one that fails changes nothing in the state. A
  \<^verbatim>\<open>getToken\<close> that makes no network call, because it answers from the cache or fails
  before the exchange, changes neither. A \<^verbatim>\<open>getToken\<close> that succeeds through an exchange
  ends with the POST of a signed assertion; with \<open>d\<close> the answer of the token endpoint to
  that POST, it returns and stores \<open>d\<close>'s \<^verbatim>\<open>access_token\<close> as the token, stores \<open>d\<close> as
  \<^verbatim>\<open>rawToken\<close>, and sets the expiry to \<^verbatim>\<open>(iat + expires_in) * 1000\<close> when \<open>d\<close> has
  \<^verbatim>\<open>expires_in\<close> and to null otherwise; so token and expiry are paired afterwards
  exactly when \<^verbatim>\<open>access_token\<close> and \<^verbatim>\<open>expires_in\<close> are paired in \<open>d\<close>. Nothing is said
  of an exchange that fails.\<close>

theorem token_expiry_pairing:
  "token (newGoogleToken options) = Null \<and> expiresAt (newGoogleToken options) = Null \<and>
   (truthy_str (token s0) \<and>
    axios_get e0 (GOOGLE_REVOKE_TOKEN_URL @ str_of (token s0)) = Inr u0 \<longrightarrow>
      fst (revokeToken e0 s0) = Inr () \<and>
      token (fst (snd (revokeToken e0 s0))) = Null \<and>
      expiresAt (fst (snd (revokeToken e0 s0))) = Null) \<and>
   (revokeToken e1 s1 = (Inl err, s1', evs1) \<longrightarrow> s1' = s1) \<and>
   (getToken e2 s2 = (r2, s2', evs2) \<and> network_calls evs2 = 0 \<longrightarrow>
      token s2' = token s2 \<and> expiresAt s2' = expiresAt s2) \<and>
   (getToken e3 s3 = (Inr t, s3', evs3) \<and> network_calls evs3 \<noteq> 0 \<longrightarrow>
      (\<exists>jwt d evs0.
          evs3 = evs0 @ [HttpPost GOOGLE_TOKEN_URL (token_form jwt)] \<and>
          axios_post e3 GOOGLE_TOKEN_URL (token_form jwt) = Inr d \<and>
          t = access_token d \<and>
          token s3' = access_token d \<and>
          rawToken s3' = Defined d \<and>
          expiresAt s3' = (case expires_in d of Null \<Rightarrow> Null | Undefined \<Rightarrow> Null
             | Defined n \<Rightarrow> Defined ((now_request e3 div 1000 + n) * 1000)) \<and>
          token_expiry_paired s3' = paired_response d))"
proof -
  have A: "token (newGoogleToken options) = Null \<and> expiresAt (newGoogleToken options) = Null"
    by (simp add: newGoogleToken_def configure_def)
  have B: "fst (revokeToken e0 s0) = Inr () \<and>
      token (fst (snd (revokeToken e0 s0))) = Null \<and>
      expiresAt (fst (snd (revokeToken e0 s0))) = Null"
    if "truthy_str (token s0)"
      and "axios_get e0 (GOOGLE_REVOKE_TOKEN_URL @ str_of (token s0)) = Inr u0"
    using that
    by (simp add: revokeToken_def revokeTokenAsync_def Let_def configure_def)
  have B': "s1' = s1" if "revokeToken e1 s1 = (Inl err, s1', evs1)"
    using that
    by (auto simp: revokeToken_def revokeTokenAsync_def Let_def split: if_splits sum.splits)
  have C: "token s2' = token s2 \<and> expiresAt s2' = expiresAt s2"
    if g: "getToken e2 s2 = (r2, s2', evs2)" and n: "network_calls evs2 = 0"
  proof -
    from g have "getTokenAsync e2 s2 = (r2, s2', evs2)" by (simp add: getToken_def)
    from getTokenAsync_cases [OF this] n show ?thesis
      by (auto simp: network_calls_append)
  qed
  have D: "\<exists>jwt d evs0.
          evs3 = evs0 @ [HttpPost GOOGLE_TOKEN_URL (token_form jwt)] \<and>
          axios_post e3 GOOGLE_TOKEN_URL (token_form jwt) = Inr d \<and>
          t = access_token d \<and>
          token s3' = access_token d \<and>
          rawToken s3' = Defined d \<and>
          expiresAt s3' = (case expires_in d of Null \<Rightarrow> Null | Undefined \<Rightarrow> Null
             | Defined n \<Rightarrow> Defined ((now_request e3 div 1000 + n) * 1000)) \<and>
          token_expiry_paired s3' = paired_response d"
    if g: "getToken e3 s3 = (Inr t, s3', evs3)" and n: "network_calls evs3 \<noteq> 0"
  proof -
    from g have "getTokenAsync e3 s3 = (Inr t, s3', evs3)" by (simp add: getToken_def)
    from getTokenAsync_cases [OF this] n
    obtain sa evs0 evsb where q: "requestToken e3 sa = (Inr t, s3', evsb)"
      and ev: "evs3 = evs0 @ evsb"
      by auto
    from requestToken_success_answer [OF q]
    obtain jwt d where p: "axios_post e3 GOOGLE_TOKEN_URL (token_form jwt) = Inr d"
      and eb: "evsb = [HttpPost GOOGLE_TOKEN_URL (token_form jwt)]"
      and t: "t = access_token d"
      and s: "s3' = sa\<lparr> rawToken := Defined d, token := access_token d,
                   expiresAt := (case expires_in d of Null \<Rightarrow> Null | Undefined \<Rightarrow> Null
                      | Defined n \<Rightarrow> Defined ((now_request e3 div 1000 + n) * 1000)) \<rparr>"
      by blast
    from s have tk: "token s3' = access_token d" and rw: "rawToken s3' = Defined d"
      and x: "expiresAt s3' = (case expires_in d of Null \<Rightarrow> Null | Undefined \<Rightarrow> Null
             | Defined n \<Rightarrow> Defined ((now_request e3 div 1000 + n) * 1000))"
      by simp_all
    from x have "nullish (expiresAt s3') = nullish (expires_in d)"
      by (cases "expires_in d") simp_all
    with tk have pr: "token_expiry_paired s3' = paired_response d"
      by (simp add: token_expiry_paired_def paired_response_def)
    from ev eb p t tk rw x pr show ?thesis by blast
  qed
  from A B B' C D show ?thesis by blast
qed

theorem token_expiry_pairing_witness:
  "token (newGoogleToken None) = Null \<and> expiresAt (newGoogleToken None) = Null \<and>
   fst (revokeToken (demo_env (Inl (demo_failure None)) (Inr ()) 6000) issued_state) = Inr () \<and>
   token (fst (snd (revokeToken (demo_env (Inl (demo_failure None)) (Inr ()) 6000)
      issued_state))) = Null \<and>
   expiresAt (fst (snd (revokeToken (demo_env (Inl (demo_failure None)) (Inr ()) 6000)
      issued_state))) = Null \<and>
   fst (snd (revokeToken (demo_env (Inl (demo_failure None)) (Inl (demo_failure None)) 6000)
      issued_state)) = issued_state \<and>
   network_calls
     (snd (snd (getToken (demo_env (Inl (demo_failure None)) (Inr ()) 6000) issued_state))) = 0 \<and>
   token (fst (snd (getToken (demo_env (Inl (demo_failure None)) (Inr ()) 6000) issued_state)))
     = Defined ''T'' \<and>
   expiresAt (fst (snd (getToken (demo_env (Inl (demo_failure None)) (Inr ()) 6000)
      issued_state))) = Defined 3605000 \<and>
   token issued_state = Defined ''T'' \<and>
   expiresAt issued_state = Defined 3605000 \<and>
   rawToken issued_state = Defined (demo_data (Defined ''T'') (Defined 3600)) \<and>
   token_expiry_paired issued_state \<and>
   token no_expiry_state = Defined ''T'' \<and>
   expiresAt no_expiry_state = Null \<and>
   rawToken no_expiry_state = Defined (demo_data (Defined ''T'') Undefined) \<and>
   \<not> token_expiry_paired no_expiry_state"
proof -
  let ?d = "demo_data (Defined ''T'') (Defined 3600)"
  let ?n = "demo_data (Defined ''T'') Undefined"
  let ?first = "demo_env (Inr ?d) (Inr ()) 5000"
  let ?noexp = "demo_env (Inr ?n) (Inr ()) 5000"
  let ?later = "demo_env (Inl (demo_failure None)) (Inr ()) 6000"
  let ?refuse = "demo_env (Inl (demo_failure None)) (Inl (demo_failure None)) 6000"
  let ?fresh = "newGoogleToken (Some key_options)"
  let ?post = "[HttpPost GOOGLE_TOKEN_URL (token_form ''JWT'')]"
  have h: "truthy_str (token issued_state)"
    by (simp add: issued_state_eq)
  have ok: "axios_get ?later (GOOGLE_REVOKE_TOKEN_URL @ str_of (token issued_state)) = Inr ()"
    by (simp add: demo_env_def)
  have rf: "revokeToken ?refuse issued_state
      = (Inl (Rejected (demo_failure None)),
         fst (snd (revokeToken ?refuse issued_state)),
         snd (snd (revokeToken ?refuse issued_state)))"
    by (simp add: revokeToken_def revokeTokenAsync_def Let_def issued_state_eq demo_env_def)
  obtain r2 s2' evs2 where g2: "getToken ?later issued_state = (r2, s2', evs2)"
    by (cases "getToken ?later issued_state") auto
  have c: "getToken ?later issued_state = (Inr (token issued_state), issued_state, [])"
    by (simp add: getToken_def getTokenAsync_def hasExpired_def issued_state_eq demo_env_def)
  with g2 have n2: "network_calls evs2 = 0"
    by (simp add: network_calls_def)
  have g3: "getToken ?first ?fresh = (Inr (Defined ''T''), issued_state, ?post)"
    by (simp add: issued_state_eq) (simp add: demo_defs op_defs Let_def)
  have g4: "getToken ?noexp ?fresh = (Inr (Defined ''T''), no_expiry_state, ?post)"
    by (simp add: no_expiry_state_eq) (simp add: demo_defs op_defs Let_def)
  have n3: "network_calls ?post \<noteq> 0"
    by (simp add: network_calls_def)
  have a3: "axios_post ?first u b = Inr ?d" and a4: "axios_post ?noexp u b = Inr ?n" for u b
    by (simp_all add: demo_env_def)
  have r3: "now_request ?first = 5000"
    by (simp add: demo_env_def)
  have v3: "access_token ?d = Defined ''T''" "expires_in ?d = Defined 3600"
    "paired_response ?d"
    and v4: "access_token ?n = Defined ''T''" "expires_in ?n = Undefined"
    "\<not> paired_response ?n"
    by (simp_all add: demo_data_def paired_response_def)
  note T = token_expiry_pairing [of None issued_state ?later "()"
      ?refuse issued_state "Rejected (demo_failure None)"
      "fst (snd (revokeToken ?refuse issued_state))" "snd (snd (revokeToken ?refuse issued_state))"
      ?later issued_state r2 s2' evs2
      ?first ?fresh "Defined ''T''" issued_state ?post]
  note U = token_expiry_pairing [of None issued_state ?later "()"
      ?refuse issued_state "Rejected (demo_failure None)"
      "fst (snd (revokeToken ?refuse issued_state))" "snd (snd (revokeToken ?refuse issued_state))"
      ?later issued_state r2 s2' evs2
      ?noexp ?fresh "Defined ''T''" no_expiry_state ?post]
  from T have c1: "token (newGoogleToken None) = Null \<and> expiresAt (newGoogleToken None) = Null"
    by blast
  from T h ok have c2: "fst (revokeToken ?later issued_state) = Inr () \<and>
      token (fst (snd (revokeToken ?later issued_state))) = Null \<and>
      expiresAt (fst (snd (revokeToken ?later issued_state))) = Null"
    by blast
  from T rf have c3: "fst (snd (revokeToken ?refuse issued_state)) = issued_state"
    by blast
  from T g2 n2 have "token s2' = token issued_state \<and> expiresAt s2' = expiresAt issued_state"
    by blast
  with g2 have k: "token (fst (snd (getToken ?later issued_state))) = token issued_state"
    "expiresAt (fst (snd (getToken ?later issued_state))) = expiresAt issued_state"
    by simp_all
  from g2 n2 have c4: "network_calls (snd (snd (getToken ?later issued_state))) = 0" by simp
  from T g3 n3 obtain jwt d where "axios_post ?first GOOGLE_TOKEN_URL (token_form jwt) = Inr d"
    and i: "token issued_state = access_token d" "rawToken issued_state = Defined d"
      "expiresAt issued_state = (case expires_in d of Null \<Rightarrow> Null | Undefined \<Rightarrow> Null
         | Defined n \<Rightarrow> Defined ((now_request ?first div 1000 + n) * 1000))"
      "token_expiry_paired issued_state = paired_response d"
    by blast
  with a3 have "d = ?d" by simp
  with i v3 r3 have c5: "token issued_state = Defined ''T''"
    "expiresAt issued_state = Defined 3605000" "rawToken issued_state = Defined ?d"
    "token_expiry_paired issued_state"
    by simp_all
  from U g4 n3 obtain jwt' d' where "axios_post ?noexp GOOGLE_TOKEN_URL (token_form jwt') = Inr d'"
    and j: "token no_expiry_state = access_token d'" "rawToken no_expiry_state = Defined d'"
      "expiresAt no_expiry_state = (case expires_in d' of Null \<Rightarrow> Null | Undefined \<Rightarrow> Null
         | Defined n \<Rightarrow> Defined ((now_request ?noexp div 1000 + n) * 1000))"
      "token_expiry_paired no_expiry_state = paired_response d'"
    by blast
  with a4 have "d' = ?n" by simp
  with j v4 have c6: "token no_expiry_state = Defined ''T''"
    "expiresAt no_expiry_state = Null" "rawToken no_expiry_state = Defined ?n"
    "\<not> token_expiry_paired no_expiry_state"
    by simp_all
  from k c5 have c7: "token (fst (snd (getToken ?later issued_state))) = Defined ''T''"
    "expiresAt (fst (snd (getToken ?later issued_state))) = Defined 3605000"
    by simp_all
  from c1 c2 c3 c4 c7 c5 c6 show ?thesis by blast
qed

section \<open>A successful revoke\<close>

lemma keyFile_issued_state_eq:
  "keyFile_issued_state =
     \<lparr> token = Defined ''T'', expiresAt = Defined 3605000, key = Some ''PK'',
       keyFile = Some ''k.json'', iss = Some ''E'', sub = None, scope = None,
       rawToken = Defined (demo_data (Defined ''T'') (Defined 3600)),
       tokenExpires = Null, email = None, additionalClaims = None \<rparr>"
  by (simp add: keyFile_issued_state_def demo_defs op_defs Let_def)

lemma revoked_state_eq:
  "revoked_state =
     \<lparr> token = Null, expiresAt = Null, key = Some ''PK'',
       keyFile = Some ''k.json'', iss = Some ''E'', sub = None, scope = None,
       rawToken = Null, tokenExpires = Null, email = None, additionalClaims = None \<rparr>"
  by (simp add: revoked_state_def keyFile_issued_state_eq)
     (simp add: demo_defs op_defs Let_def)

lemma configure_current:
  "configure \<lparr> opt_keyFile = keyFile s, opt_key = key s, opt_email = iss s,
               opt_iss = None, opt_sub = sub s,
               opt_scope = map_option ScopeString (scope s),
               opt_additionalClaims = additionalClaims s \<rparr> s
   = s\<lparr> token := Null, expiresAt := Null, rawToken := Null,
        iss := (if truthy (iss s) then iss s else None) \<rparr>"
  by (cases s; cases "scope s") (simp_all add: configure_def js_or_def)

text \<open>C3 (as stated, refuted). A manager built with the key file \<^verbatim>\<open>k.json\<close> alone has no
  key and no issuer. Its first \<^verbatim>\<open>getToken()\<close> reads the file once and adopts the key
  \<^verbatim>\<open>PK\<close> and the issuer \<^verbatim>\<open>E\<close>. After a successful \<^verbatim>\<open>revokeToken()\<close> the key and the
  issuer are still \<^verbatim>\<open>PK\<close> and \<^verbatim>\<open>E\<close>, not the construction-time values, and the next
  \<^verbatim>\<open>getToken()\<close> makes its exchange without reading the key file.\<close>

theorem revoke_reset_counterexample:
  "key (newGoogleToken (Some keyFile_options)) = None \<and>
   iss (newGoogleToken (Some keyFile_options)) = None \<and>
   file_reads (snd (snd (getToken
      (demo_env (Inr (demo_data (Defined ''T'') (Defined 3600))) (Inr ()) 5000)
      (newGoogleToken (Some keyFile_options))))) = 1 \<and>
   fst (revokeToken (demo_env (Inr (demo_data (Defined ''T'') (Defined 3600))) (Inr ()) 6000)
      keyFile_issued_state) = Inr () \<and>
   key revoked_state = Some ''PK'' \<and>
   iss revoked_state = Some ''E'' \<and>
   revoked_state \<noteq> newGoogleToken (Some keyFile_options) \<and>
   getToken (demo_env (Inr (demo_data (Defined ''T'') (Defined 3600))) (Inr ()) 7000)
      revoked_state
     = (Inr (Defined ''T''),
        revoked_state\<lparr> token := Defined ''T'', expiresAt := Defined 3607000,
                        rawToken := Defined (demo_data (Defined ''T'') (Defined 3600)) \<rparr>,
        [HttpPost GOOGLE_TOKEN_URL (token_form ''JWT'')]) \<and>
   file_reads (snd (snd (getToken
      (demo_env (Inr (demo_data (Defined ''T'') (Defined 3600))) (Inr ()) 7000)
      revoked_state))) = 0"
  by (simp add: revoked_state_eq keyFile_issued_state_eq)
     (simp add: demo_defs op_defs Let_def file_reads_def)

text \<open>C3 (amended). A successful \<^verbatim>\<open>revokeToken()\<close> makes one GET of the revoke URL and
  configures the manager again from its current fields: key, keyFile, sub, scope and
  additionalClaims stay as they are at the time of the call (iss too, unless it is empty,
  which becomes undefined), and token, expiresAt and rawToken become null. Then
  \<^verbatim>\<open>hasExpired()\<close> is true, so a subsequent \<^verbatim>\<open>getToken()\<close> does not answer from the cache:
  when a key is set, also one taken from the key file earlier, it signs with this key
  and posts a fresh exchange, reading no file.\<close>

theorem revoke_success_reconfigures:
  assumes "truthy_str (token s)"
    and "axios_get e (GOOGLE_REVOKE_TOKEN_URL @ str_of (token s)) = Inr u"
  shows "revokeToken e s =
           (Inr (),
            s\<lparr> token := Null, expiresAt := Null, rawToken := Null,
               iss := (if truthy (iss s) then iss s else None) \<rparr>,
            [HttpGet (GOOGLE_REVOKE_TOKEN_URL @ str_of (token s))]) \<and>
         hasExpired now_ms (fst (snd (revokeToken e s))) \<and>
         (truthy (key s) \<and>
          jws_sign e2 (payload (fst (snd (revokeToken e s))) (now_request e2 div 1000)) (key s)
            = Inr jwt \<longrightarrow>
            snd (snd (getToken e2 (fst (snd (revokeToken e s)))))
              = [HttpPost GOOGLE_TOKEN_URL (token_form jwt)])"
proof -
  define s' where "s' = s\<lparr> token := Null, expiresAt := Null, rawToken := Null,
                           iss := (if truthy (iss s) then iss s else None) \<rparr>"
  have r: "revokeToken e s =
      (Inr (), s', [HttpGet (GOOGLE_REVOKE_TOKEN_URL @ str_of (token s))])"
    using assms
    by (simp add: revokeToken_def revokeTokenAsync_def Let_def configure_current s'_def)
  have st: "fst (snd (revokeToken e s)) = s'"
    by (simp add: r)
  have ex: "hasExpired n s'" for n
    by (simp add: hasExpired_def s'_def)
  have k: "key s' = key s"
    by (simp add: s'_def)
  have "snd (snd (getToken e2 s')) = [HttpPost GOOGLE_TOKEN_URL (token_form jwt)]"
    if t: "truthy (key s)"
      and j: "jws_sign e2 (payload s' (now_request e2 div 1000)) (key s) = Inr jwt"
  proof -
    from t k have "truthy (key s')" by simp
    with ex have "getToken e2 s' = requestToken e2 s'"
      by (rule getToken_with_key)
    then show ?thesis
      using j k by (simp add: requestToken_def Let_def split: sum.splits)
  qed
  with r ex show ?thesis
    unfolding st s'_def by blast
qed

theorem revoke_success_reconfigures_witness:
  "truthy_str (token keyFile_issued_state) \<and>
   revokeToken (demo_env (Inr (demo_data (Defined ''T'') (Defined 3600))) (Inr ()) 6000)
       keyFile_issued_state
     = (Inr (), revoked_state, [HttpGet ''https://accounts.google.com/o/oauth2/revoke?token=T'']) \<and>
   hasExpired 6000 revoked_state \<and>
   snd (snd (getToken (demo_env (Inr (demo_data (Defined ''T'') (Defined 3600))) (Inr ()) 7000)
      revoked_state)) = [HttpPost GOOGLE_TOKEN_URL (token_form ''JWT'')]"
proof -
  let ?d = "demo_data (Defined ''T'') (Defined 3600)"
  let ?rev = "demo_env (Inr ?d) (Inr ()) 6000"
  let ?next = "demo_env (Inr ?d) (Inr ()) 7000"
  have h: "truthy_str (token keyFile_issued_state)"
    by (simp add: keyFile_issued_state_eq)
  have g: "axios_get ?rev (GOOGLE_REVOKE_TOKEN_URL @ str_of (token keyFile_issued_state)) = Inr ()"
    by (simp add: demo_env_def)
  have st: "fst (snd (revokeToken ?rev keyFile_issued_state)) = revoked_state"
    by (simp add: revoked_state_def)
  have u: "GOOGLE_REVOKE_TOKEN_URL @ str_of (token keyFile_issued_state)
             = ''https://accounts.google.com/o/oauth2/revoke?token=T''"
    by (simp add: keyFile_issued_state_eq GOOGLE_REVOKE_TOKEN_URL_def)
  have k: "truthy (key keyFile_issued_state)"
    by (simp add: keyFile_issued_state_eq)
  have j: "jws_sign ?next (payload revoked_state (now_request ?next div 1000))
             (key keyFile_issued_state) = Inr ''JWT''"
    by (simp add: demo_env_def)
  have q: "keyFile_issued_state\<lparr> token := Null, expiresAt := Null, rawToken := Null,
             iss := (if truthy (iss keyFile_issued_state) then iss keyFile_issued_state
                     else None) \<rparr> = revoked_state"
    by (simp add: keyFile_issued_state_eq revoked_state_eq)
  note T = revoke_success_reconfigures [OF h g, of 6000 ?next "''JWT''", unfolded st u q]
  from T have c1: "revokeToken ?rev keyFile_issued_state
     = (Inr (), revoked_state, [HttpGet ''https://accounts.google.com/o/oauth2/revoke?token=T''])"
    by blast
  from T have c2: "hasExpired 6000 revoked_state" by blast
  from T k j have c3: "snd (snd (getToken ?next revoked_state))
      = [HttpPost GOOGLE_TOKEN_URL (token_form ''JWT'')]" by blast
  from h c1 c2 c3 show ?thesis by blast
qed

end
